theory Spec2Isabelle
  imports Complex_Main
begin

section \<open>Python strings and printing\<close>

text \<open>
  The notebook's text callbacks only build strings with \<^verbatim>\<open>str(i)\<close> and
  \<^verbatim>\<open>' '.join([...])\<close> and hand them to \<^verbatim>\<open>print\<close>. Standard output is the
  list of the texts printed so far, one entry for each call of \<^verbatim>\<open>print\<close>.
\<close>

definition digit_char :: "nat \<Rightarrow> char" where
  "digit_char d = ''0123456789'' ! d"

fun str_nat :: "nat \<Rightarrow> string" where
  "str_nat n = (if n < 10 then [digit_char n] else str_nat (n div 10) @ [digit_char (n mod 10)])"

declare str_nat.simps [simp del]

text \<open>\<^verbatim>\<open>str(i)\<close> for a Python int: the decimal digits, after a minus sign when negative.\<close>

definition str_int :: "int \<Rightarrow> string" where
  "str_int i = (if i < 0 then CHR ''-'' # str_nat (nat (- i)) else str_nat (nat i))"

text \<open>\<^verbatim>\<open>sep.join(xs)\<close>.\<close>

fun join :: "string \<Rightarrow> string list \<Rightarrow> string" where
  "join sep [] = []"
| "join sep [x] = x"
| "join sep (x # y # ys) = x @ sep @ join sep (y # ys)"

type_synonym stdout = "string list"

definition print :: "string \<Rightarrow> stdout \<Rightarrow> stdout" where
  "print s out = out @ [s]"

subsection \<open>The text callbacks\<close>

text \<open>
  \<^verbatim>\<open>
  def print10X(str1):
      for i in range (10):
          print(' '.join([str1, str(i)]))
  \<close>
\<close>

definition print10X :: "string \<Rightarrow> stdout \<Rightarrow> stdout" where
  "print10X str1 out =
     fold (\<lambda>i. print (join '' '' [str1, str_int (int i)])) [0..<10] out"

text \<open>
  \<^verbatim>\<open>
  def print10XPair(str1, str2):
      for i in range (10):
          print(' '.join([str1, str2, str(i)]))
  \<close>
\<close>

definition print10XPair :: "string \<Rightarrow> string \<Rightarrow> stdout \<Rightarrow> stdout" where
  "print10XPair str1 str2 out =
     fold (\<lambda>i. print (join '' '' [str1, str2, str_int (int i)])) [0..<10] out"

text \<open>
  \<^verbatim>\<open>
  def times10(x):
      print(x * 10)
  \<close>
  The argument comes from an integer slider; \<^verbatim>\<open>print\<close> writes \<^verbatim>\<open>str(x * 10)\<close>.
\<close>

definition times10 :: "int \<Rightarrow> stdout \<Rightarrow> stdout" where
  "times10 x out = print (str_int (x * 10)) out"

section \<open>Tabular datasets\<close>

text \<open>
  A dataset of the catalogue is a pandas dataframe: named columns and rows of cells. A cell
  is a number, a text or missing (pandas' NaN). Numbers are taken as exact reals: the cost
  column of the bird strikes data holds whole numbers of dollars, the iris columns decimals.
\<close>

datatype cell = Num real | Str string | NaN

type_synonym row = "(string \<times> cell) list"

record dataframe =
  columns :: "string list"
  rows :: "row list"

definition cell_of :: "row \<Rightarrow> string \<Rightarrow> cell" where
  "cell_of r c = (case map_of r c of Some v \<Rightarrow> v | None \<Rightarrow> NaN)"

datatype error = KeyError | TypeError | ValueError | NameError

text \<open>\<^verbatim>\<open>df[c]\<close>: the column as a series of cells; an unknown column name raises KeyError.\<close>

definition series :: "dataframe \<Rightarrow> string \<Rightarrow> error + cell list" where
  "series df c =
     (if c \<in> set (columns df) then Inr (map (\<lambda>r. cell_of r c) (rows df)) else Inl KeyError)"

text \<open>
  The numbers that \<^verbatim>\<open>.min()\<close> and \<^verbatim>\<open>.max()\<close> range over: missing cells are skipped.
  A text cell in the column makes the comparison or the later division raise TypeError.
\<close>

fun numbers :: "cell list \<Rightarrow> error + real list" where
  "numbers [] = Inr []"
| "numbers (Num x # cs) = (case numbers cs of Inl e \<Rightarrow> Inl e | Inr xs \<Rightarrow> Inr (x # xs))"
| "numbers (NaN # cs) = numbers cs"
| "numbers (Str s # cs) = Inl TypeError"

definition costCol :: string where
  "costCol = ''Cost__Total_$''"

text \<open>
  \<^verbatim>\<open>
  costRangeInData=[# thousands
      math.floor(birdStrikesDF[costCol].min() / 1000),
      math.ceil(birdStrikesDF[costCol].max() / 1000)
  ]
  \<close>
  The two-element list is a pair. With no number in the column \<^verbatim>\<open>min()\<close> is NaN and
  \<^verbatim>\<open>math.floor\<close> raises ValueError. The division is exact here; Python's is rounded to
  a double, which gives the same floor and ceiling for whole-dollar costs below \<open>10^15\<close>.
\<close>

definition costRangeInData :: "dataframe \<Rightarrow> error + int \<times> int" where
  "costRangeInData df =
     (case series df costCol of
        Inl e \<Rightarrow> Inl e
      | Inr cs \<Rightarrow>
          (case numbers cs of
             Inl e \<Rightarrow> Inl e
           | Inr [] \<Rightarrow> Inl ValueError
           | Inr (x # xs) \<Rightarrow> Inr (\<lfloor>fold min xs x / 1000\<rfloor>, \<lceil>fold max xs x / 1000\<rceil>)))"

section \<open>Chart descriptions\<close>

text \<open>
  A chart is the declarative description the plotting library is handed: the data, a title,
  the mark, the filter transforms, the encoding channels and the selection parameters. The
  notebook builds one by chaining \<^verbatim>\<open>alt.Chart(...)\<close>, \<^verbatim>\<open>.transform_filter\<close>,
  \<^verbatim>\<open>.mark_bar\<close> or \<^verbatim>\<open>.mark_point\<close>, \<^verbatim>\<open>.encode\<close> and \<^verbatim>\<open>.add_params\<close>.
\<close>

text \<open>\<^verbatim>\<open>mark_bar()\<close>, \<^verbatim>\<open>mark_point()\<close> and \<^verbatim>\<open>mark_rule(color=c, opacity=o)\<close>.\<close>

datatype mark = Bar | Point | Rule string real

text \<open>\<^verbatim>\<open>alt.selection_interval(encodings=[...])\<close>.\<close>

datatype selection = Selection_interval "string list"

text \<open>
  What the notebook passes for a channel: a shorthand string, \<^verbatim>\<open>alt.Color(field,
  scale=alt.Scale(scheme=s))\<close>, \<^verbatim>\<open>alt.condition(param, alt.value(a), alt.value(b))\<close>,
  \<^verbatim>\<open>alt.X(shorthand, scale=alt.Scale(zero=z))\<close> or \<^verbatim>\<open>alt.SizeValue(n)\<close>.
\<close>

datatype channel =
    Shorthand string
  | Color string string
  | Condition selection int int
  | X_scaled string bool
  | SizeValue int

record encoding =
  enc_x :: "channel option"
  enc_y :: "channel option"
  enc_color :: "channel option"
  enc_size :: "channel option"
  enc_tooltip :: "string list option"

definition no_channels :: encoding where
  "no_channels =
     \<lparr>enc_x = None, enc_y = None, enc_color = None, enc_size = None, enc_tooltip = None\<rparr>"

text \<open>
  Filter expressions over \<^verbatim>\<open>datum\<close>: \<^verbatim>\<open>datum[c]\<close>, an integer literal, \<^verbatim>\<open>>=\<close>,
  \<^verbatim>\<open><=\<close> and \<^verbatim>\<open>&\<close>.
\<close>

datatype expr = Datum string | Lit int

datatype pred = GE expr expr | LE expr expr | And pred pred

text \<open>\<^verbatim>\<open>.transform_filter\<close> takes such an expression or a selection parameter.\<close>

datatype transform = Filter pred | Filter_selection selection

text \<open>\<^verbatim>\<open>alt.Title(text, subtitle=...)\<close>.\<close>

datatype title = Title string "string option"

record chart =
  data :: "dataframe option"
  title :: "title option"
  mark :: "mark option"
  transforms :: "transform list"
  encoding :: encoding
  params :: "selection list"

definition Chart :: "dataframe option \<Rightarrow> title option \<Rightarrow> chart" where
  "Chart df t =
     \<lparr>data = df, title = t, mark = None, transforms = [], encoding = no_channels, params = []\<rparr>"

definition mark_bar :: "chart \<Rightarrow> chart" where
  "mark_bar c = c\<lparr>mark := Some Bar\<rparr>"

definition mark_point :: "chart \<Rightarrow> chart" where
  "mark_point c = c\<lparr>mark := Some Point\<rparr>"

definition mark_rule :: "string \<Rightarrow> real \<Rightarrow> chart \<Rightarrow> chart" where
  "mark_rule color opacity c = c\<lparr>mark := Some (Rule color opacity)\<rparr>"

definition transform_filter :: "transform \<Rightarrow> chart \<Rightarrow> chart" where
  "transform_filter t c = c\<lparr>transforms := transforms c @ [t]\<rparr>"

definition add_params :: "selection \<Rightarrow> chart \<Rightarrow> chart" where
  "add_params b c = c\<lparr>params := params c @ [b]\<rparr>"

text \<open>\<^verbatim>\<open>alt.layer(chart, ..., data=df)\<close>: charts drawn over each other on one dataset.\<close>

record layer_chart =
  layers :: "chart list"
  layer_data :: dataframe

definition layer :: "chart list \<Rightarrow> dataframe \<Rightarrow> layer_chart" where
  "layer cs df = \<lparr>layers = cs, layer_data = df\<rparr>"

text \<open>\<^verbatim>\<open>.encode(**kwargs)\<close> sets the channels it is given and keeps the others.\<close>

definition override :: "'a option \<Rightarrow> 'a option \<Rightarrow> 'a option" where
  "override new old = (case new of None \<Rightarrow> old | Some v \<Rightarrow> Some v)"

definition encode :: "encoding \<Rightarrow> chart \<Rightarrow> chart" where
  "encode kw c =
     c\<lparr>encoding :=
        \<lparr>enc_x = override (enc_x kw) (enc_x (encoding c)),
         enc_y = override (enc_y kw) (enc_y (encoding c)),
         enc_color = override (enc_color kw) (enc_color (encoding c)),
         enc_size = override (enc_size kw) (enc_size (encoding c)),
         enc_tooltip = override (enc_tooltip kw) (enc_tooltip (encoding c))\<rparr>\<rparr>"

subsection \<open>What a chart description means\<close>

text \<open>
  A filter keeps the rows its predicate holds for. A comparison holds between two numbers;
  with a missing or a text operand it does not hold. Which marks lie inside a selection is
  the plotting library's to say as the user brushes: \<open>inside b r\<close> tells whether row \<open>r\<close>
  lies inside selection \<open>b\<close>.
\<close>

fun eval_expr :: "expr \<Rightarrow> row \<Rightarrow> cell" where
  "eval_expr (Datum c) r = cell_of r c"
| "eval_expr (Lit n) r = Num (of_int n)"

fun holds :: "pred \<Rightarrow> row \<Rightarrow> bool" where
  "holds (GE a b) r =
     (case (eval_expr a r, eval_expr b r) of (Num x, Num y) \<Rightarrow> x \<ge> y | _ \<Rightarrow> False)"
| "holds (LE a b) r =
     (case (eval_expr a r, eval_expr b r) of (Num x, Num y) \<Rightarrow> x \<le> y | _ \<Rightarrow> False)"
| "holds (And p q) r = (holds p r \<and> holds q r)"

fun keep :: "(selection \<Rightarrow> row \<Rightarrow> bool) \<Rightarrow> transform \<Rightarrow> row list \<Rightarrow> row list" where
  "keep inside (Filter p) rs = filter (holds p) rs"
| "keep inside (Filter_selection b) rs = filter (inside b) rs"

text \<open>The rows of its own data a chart draws; a chart without data of its own has none.\<close>

definition chart_rows :: "(selection \<Rightarrow> row \<Rightarrow> bool) \<Rightarrow> chart \<Rightarrow> row list" where
  "chart_rows inside c =
     fold (keep inside) (transforms c) (case data c of None \<Rightarrow> [] | Some df \<Rightarrow> rows df)"

text \<open>
  The selections a channel's definition refers to, and the constant size a channel gives a
  mark when \<open>sel b\<close> tells whether the mark lies inside selection \<open>b\<close>.
\<close>

fun selections_of :: "channel \<Rightarrow> selection list" where
  "selections_of (Shorthand f) = []"
| "selections_of (Color f s) = []"
| "selections_of (Condition b v w) = [b]"
| "selections_of (X_scaled f z) = []"
| "selections_of (SizeValue n) = []"

fun size_value :: "(selection \<Rightarrow> bool) \<Rightarrow> channel \<Rightarrow> int option" where
  "size_value sel (Condition b v w) = Some (if sel b then v else w)"
| "size_value sel (SizeValue n) = Some n"
| "size_value sel (Shorthand f) = None"
| "size_value sel (Color f s) = None"
| "size_value sel (X_scaled f z) = None"

definition mark_size :: "(selection \<Rightarrow> row \<Rightarrow> bool) \<Rightarrow> chart \<Rightarrow> row \<Rightarrow> int option" where
  "mark_size inside c r =
     (case enc_size (encoding c) of
        None \<Rightarrow> None
      | Some ch \<Rightarrow> size_value (\<lambda>b. inside b r) ch)"

text \<open>For each channel that takes a definition, the selections it is conditioned on.\<close>

definition channel_selections :: "encoding \<Rightarrow> (string \<times> selection list) list" where
  "channel_selections e =
     [(''x'', case_option [] selections_of (enc_x e)),
      (''y'', case_option [] selections_of (enc_y e)),
      (''color'', case_option [] selections_of (enc_color e)),
      (''size'', case_option [] selections_of (enc_size e))]"

section \<open>The charts of the notebook\<close>

text \<open>
  The two bar charts the notebook draws before it binds a control:
  \<^verbatim>\<open>
  alt.Chart(birdStrikesDF).mark_bar().encode(
      x='When__Phase_of_flight',
      y='count()'
  )
  \<close>
  and the same chart with \<^verbatim>\<open>title=alt.Title('Bird Strikes Dataset')\<close>.
\<close>

definition phase_bars :: "dataframe \<Rightarrow> chart" where
  "phase_bars df =
     encode (no_channels\<lparr>enc_x := Some (Shorthand ''When__Phase_of_flight''),
                          enc_y := Some (Shorthand ''count()'')\<rparr>)
       (mark_bar (Chart (Some df) None))"

definition titled_phase_bars :: "dataframe \<Rightarrow> chart" where
  "titled_phase_bars df =
     encode (no_channels\<lparr>enc_x := Some (Shorthand ''When__Phase_of_flight''),
                          enc_y := Some (Shorthand ''count()'')\<rparr>)
       (mark_bar (Chart (Some df) (Some (Title ''Bird Strikes Dataset'' None))))"

subsection \<open>The chart callbacks\<close>

text \<open>
  \<^verbatim>\<open>
  def barChart(xcol):
      return alt.Chart(
              birdStrikesDF,
              title=alt.Title(
                  'Bird Strikes Dataset'
              )
          ).mark_bar().encode(
          x=xcol,
          y='count()'
      )
  \<close>
  The global \<^verbatim>\<open>birdStrikesDF\<close> the callback reads is the argument \<open>df\<close>.
\<close>

definition barChart :: "dataframe \<Rightarrow> string \<Rightarrow> chart" where
  "barChart df xcol =
     encode (no_channels\<lparr>enc_x := Some (Shorthand xcol), enc_y := Some (Shorthand ''count()'')\<rparr>)
       (mark_bar (Chart (Some df) (Some (Title ''Bird Strikes Dataset'' None))))"

text \<open>The en dash of the subtitle, as its three UTF-8 bytes.\<close>

definition en_dash :: string where
  "en_dash = [CHR 0xE2, CHR 0x80, CHR 0x93]"

text \<open>
  \<^verbatim>\<open>
  def barChartRanges(xcol, costRange):
      return alt.Chart(
          birdStrikesDF,
          title=alt.Title(
              'Bird Strikes Dataset',
              subtitle='With costs $' +
              str(costRange[0]) + '-' +
              str(costRange[1]) + 'k'
          )
      ).transform_filter(
          ((datum[costCol] >= (costRange[0] * 1000)) &
           (datum[costCol] <= (costRange[1] * 1000)))
      ).mark_bar().encode(
          x=xcol,
          y='count()'
      )
  \<close>
  (the dash of the subtitle is an en dash in the source). The range slider delivers
  \<^verbatim>\<open>costRange\<close> as a pair of integers.
\<close>

definition barChartRanges :: "dataframe \<Rightarrow> string \<Rightarrow> int \<times> int \<Rightarrow> chart" where
  "barChartRanges df xcol costRange =
     encode (no_channels\<lparr>enc_x := Some (Shorthand xcol), enc_y := Some (Shorthand ''count()'')\<rparr>)
       (mark_bar
         (transform_filter
           (Filter (And (GE (Datum costCol) (Lit (fst costRange * 1000)))
                        (LE (Datum costCol) (Lit (snd costRange * 1000)))))
           (Chart (Some df)
             (Some (Title ''Bird Strikes Dataset''
               (Some (''With costs $'' @ str_int (fst costRange) @ en_dash
                      @ str_int (snd costRange) @ ''k'')))))))"

text \<open>
  The first \<^verbatim>\<open>irisScatter\<close> of the notebook, which the second definition replaces:
  \<^verbatim>\<open>
  def irisScatter():
      irisChart = alt.Chart(irisDF)
      points = irisChart.mark_point().encode(
          x='sepalLength',
          y='petalLength',
      )
      return points
  \<close>
\<close>

definition irisScatter_first :: "dataframe \<Rightarrow> chart" where
  "irisScatter_first irisDF =
     encode (no_channels\<lparr>enc_x := Some (Shorthand ''sepalLength''),
                          enc_y := Some (Shorthand ''petalLength'')\<rparr>)
       (mark_point (Chart (Some irisDF) None))"

text \<open>
  \<^verbatim>\<open>
  def irisScatter():
      irisChart = alt.Chart(irisDF)
      points = irisChart.mark_point().encode(
          x='sepalLength',
          y='petalLength',
          color=alt.Color('sepalWidth', scale=alt.Scale(scheme='purples')),
          tooltip=['sepalLength', 'petalLength', 'sepalWidth', 'petalWidth']
      )
      return points
  \<close>
\<close>

definition irisScatter :: "dataframe \<Rightarrow> chart" where
  "irisScatter irisDF =
     encode (no_channels\<lparr>enc_x := Some (Shorthand ''sepalLength''),
                          enc_y := Some (Shorthand ''petalLength''),
                          enc_color := Some (Color ''sepalWidth'' ''purples''),
                          enc_tooltip :=
                            Some [''sepalLength'', ''petalLength'', ''sepalWidth'', ''petalWidth'']\<rparr>)
       (mark_point (Chart (Some irisDF) None))"

text \<open>
  \<^verbatim>\<open>
  def irisBrushScatter():
      brush = alt.selection_interval(encodings=['x', 'y'])
      irisChart = alt.Chart(irisDF)
      points = irisChart.mark_point().encode(
          x='sepalLength',
          y='petalLength',
          color=alt.Color('sepalWidth', scale=alt.Scale(scheme='purples')),
          size=alt.condition(brush, alt.value(50), alt.value(1)),
          tooltip=['sepalLength', 'petalLength', 'sepalWidth', 'petalWidth']
      ).add_params(
          brush
      )
      return points
  \<close>
\<close>

definition irisBrushScatter :: "dataframe \<Rightarrow> chart" where
  "irisBrushScatter irisDF =
     (let brush = Selection_interval [''x'', ''y'']
      in add_params brush
           (encode (no_channels\<lparr>enc_x := Some (Shorthand ''sepalLength''),
                                enc_y := Some (Shorthand ''petalLength''),
                                enc_color := Some (Color ''sepalWidth'' ''purples''),
                                enc_size := Some (Condition brush 50 1),
                                enc_tooltip :=
                                  Some [''sepalLength'', ''petalLength'', ''sepalWidth'',
                                        ''petalWidth'']\<rparr>)
             (mark_point (Chart (Some irisDF) None))))"

text \<open>
  The last cell of the notebook:
  \<^verbatim>\<open>
  brush = alt.selection_interval(encodings=['x', 'y'])
  irisChart = alt.Chart()
  points = irisChart.mark_point().encode(
      x='sepalLength',
      y='petalLength',
      color=alt.Color('sepalWidth', scale=alt.Scale(scheme='purples')),
      size=alt.condition(brush, alt.value(50), alt.value(1)),
      tooltip=['sepalLength', 'petalLength', 'sepalWidth', 'petalWidth']
  ).add_params(
      brush
  )
  meanLine = alt.Chart().mark_rule(color='black', opacity=.5).encode(
      x=alt.X('median(sepalLength):Q', scale=alt.Scale(zero=False)),
      size=alt.SizeValue(3)
  ).transform_filter(
      brush
  )
  alt.layer(points, meanLine, data=irisDF)
  \<close>
\<close>

definition median_layers :: "dataframe \<Rightarrow> layer_chart" where
  "median_layers irisDF =
     (let brush = Selection_interval [''x'', ''y''];
          irisChart = Chart None None;
          points =
            add_params brush
              (encode (no_channels\<lparr>enc_x := Some (Shorthand ''sepalLength''),
                                   enc_y := Some (Shorthand ''petalLength''),
                                   enc_color := Some (Color ''sepalWidth'' ''purples''),
                                   enc_size := Some (Condition brush 50 1),
                                   enc_tooltip :=
                                     Some [''sepalLength'', ''petalLength'', ''sepalWidth'',
                                           ''petalWidth'']\<rparr>)
                (mark_point irisChart));
          meanLine =
            transform_filter (Filter_selection brush)
              (encode (no_channels\<lparr>enc_x := Some (X_scaled ''median(sepalLength):Q'' False),
                                   enc_size := Some (SizeValue 3)\<rparr>)
                (mark_rule ''black'' 0.5 (Chart None None)))
      in layer [points, meanLine] irisDF)"

section \<open>Control descriptors\<close>

text \<open>
  The four widgets the notebook constructs, with the keyword arguments it gives them:
  \<^verbatim>\<open>Text(value, description)\<close>, \<^verbatim>\<open>IntSlider(value, min, max, step, description)\<close>,
  \<^verbatim>\<open>IntRangeSlider(value, min, max, step, description)\<close> and
  \<^verbatim>\<open>Dropdown(options, value, description)\<close>.
\<close>

datatype control =
    Text string string
  | IntSlider int int int int string
  | IntRangeSlider "int \<times> int" int int int string
  | Dropdown "string list" string string

datatype kind = Free_text | Integer | Integer_pair | Single_choice

fun kind_of :: "control \<Rightarrow> kind" where
  "kind_of (Text v d) = Free_text"
| "kind_of (IntSlider v lo hi st d) = Integer"
| "kind_of (IntRangeSlider v lo hi st d) = Integer_pair"
| "kind_of (Dropdown opts v d) = Single_choice"

text \<open>The value a control holds: a string, an integer or a pair of integers.\<close>

datatype ctlval = VStr string | VInt int | VPair "int \<times> int"

fun initial :: "control \<Rightarrow> ctlval" where
  "initial (Text v d) = VStr v"
| "initial (IntSlider v lo hi st d) = VInt v"
| "initial (IntRangeSlider v lo hi st d) = VPair v"
| "initial (Dropdown opts v d) = VStr v"

text \<open>The initial value lies in the declared domain of the control.\<close>

fun in_domain :: "control \<Rightarrow> bool" where
  "in_domain (Text v d) = True"
| "in_domain (IntSlider v lo hi st d) = (lo \<le> v \<and> v \<le> hi)"
| "in_domain (IntRangeSlider v lo hi st d) = (lo \<le> fst v \<and> fst v \<le> snd v \<and> snd v \<le> hi)"
| "in_domain (Dropdown opts v d) = (v \<in> set opts)"

subsection \<open>The controls of the notebook\<close>

text \<open>Each \<^verbatim>\<open>@interact(name=widget, ...)\<close> names the controls of one callback.\<close>

definition controls_print10X :: "(string \<times> control) list" where
  "controls_print10X = [(''str1'', Text ''Hello'' ''Input string 1:'')]"

text \<open>The widget of the variant without a decorator.\<close>

definition textWidget :: control where
  "textWidget = Text ''Hello World!'' ''Input string:''"

definition controls_print10XPair :: "(string \<times> control) list" where
  "controls_print10XPair =
     [(''str1'', Text ''Hello'' ''Input string 1:''),
      (''str2'', Text ''World!'' ''Input string 2:'')]"

definition controls_times10 :: "(string \<times> control) list" where
  "controls_times10 = [(''x'', IntSlider 7 0 10 1 ''x:'')]"

text \<open>\<^verbatim>\<open>options=list(birdStrikesDF.columns)\<close>.\<close>

definition controls_barChart :: "dataframe \<Rightarrow> (string \<times> control) list" where
  "controls_barChart df =
     [(''xcol'', Dropdown (columns df) ''When__Phase_of_flight'' ''Column:'')]"

text \<open>
  \<^verbatim>\<open>value=costRangeInData, min=costRangeInData[0], max=costRangeInData[1]\<close>; the
  argument \<open>cr\<close> is the global \<^verbatim>\<open>costRangeInData\<close>.
\<close>

definition controls_barChartRanges :: "dataframe \<Rightarrow> int \<times> int \<Rightarrow> (string \<times> control) list" where
  "controls_barChartRanges df cr =
     [(''xcol'', Dropdown (columns df) ''When__Phase_of_flight'' ''Column:''),
      (''costRange'', IntRangeSlider cr (fst cr) (snd cr) 1 ''Cost range:'')]"

definition notebook_controls :: "dataframe \<Rightarrow> int \<times> int \<Rightarrow> control list" where
  "notebook_controls df cr =
     map snd controls_print10X @ [textWidget] @ map snd controls_print10XPair
     @ map snd controls_times10 @ map snd (controls_barChart df)
     @ map snd (controls_barChartRanges df cr)"

section \<open>The interaction binder\<close>

text \<open>
  Modelled from the spec: \<^verbatim>\<open>interact\<close> is the widget library's, not the notebook's, so
  the binder follows section 4.1 of the specification. On first bind it invokes the
  callback once with the initial values of its controls and displays the result. When a
  control changes it invokes the callback again with the current values of all controls and
  replaces the displayed result. When the callback raises, the error goes to the session
  as it is, nothing is displayed for that invocation and the call is not repeated.
  A binder keeps the current values, the arguments of every invocation so far and the one
  live output.
\<close>

datatype outcome = Printed stdout | Rendered chart

record binding =
  current :: "ctlval list"
  invocations :: "ctlval list list"
  displayed :: "outcome option"

type_synonym callback = "ctlval list \<Rightarrow> error + outcome"

definition invoke :: "callback \<Rightarrow> binding \<Rightarrow> binding \<times> error option" where
  "invoke cb b =
     (let b' = b\<lparr>invocations := invocations b @ [current b]\<rparr>
      in case cb (current b) of
           Inl e \<Rightarrow> (b', Some e)
         | Inr out \<Rightarrow> (b'\<lparr>displayed := Some out\<rparr>, None))"

definition interact :: "(string \<times> control) list \<Rightarrow> callback \<Rightarrow> binding \<times> error option" where
  "interact ctrls cb =
     invoke cb \<lparr>current = map (initial \<circ> snd) ctrls, invocations = [], displayed = None\<rparr>"


subsection \<open>The callbacks as the binder calls them\<close>

text \<open>
  The binder passes the values of the controls as keyword arguments. What a callback prints
  is captured as its output; a chart it returns is rendered. The controls of the notebook
  never deliver another list of arguments than the one each callback is written for; the
  model answers such a call with TypeError, which is what \<^verbatim>\<open>join\<close> raises when
  \<^verbatim>\<open>print10X\<close> is given an integer.
\<close>

definition call_print10X :: callback where
  "call_print10X vs =
     (case vs of [VStr str1] \<Rightarrow> Inr (Printed (print10X str1 [])) | _ \<Rightarrow> Inl TypeError)"

definition call_print10XPair :: callback where
  "call_print10XPair vs =
     (case vs of
        [VStr str1, VStr str2] \<Rightarrow> Inr (Printed (print10XPair str1 str2 []))
      | _ \<Rightarrow> Inl TypeError)"

definition call_times10 :: callback where
  "call_times10 vs =
     (case vs of [VInt x] \<Rightarrow> Inr (Printed (times10 x [])) | _ \<Rightarrow> Inl TypeError)"

definition call_barChart :: "dataframe \<Rightarrow> callback" where
  "call_barChart df vs =
     (case vs of [VStr xcol] \<Rightarrow> Inr (Rendered (barChart df xcol)) | _ \<Rightarrow> Inl TypeError)"

definition call_barChartRanges :: "dataframe \<Rightarrow> callback" where
  "call_barChartRanges df vs =
     (case vs of
        [VStr xcol, VPair costRange] \<Rightarrow> Inr (Rendered (barChartRanges df xcol costRange))
      | _ \<Rightarrow> Inl TypeError)"

section \<open>The observer of the text box\<close>

text \<open>
  \<^verbatim>\<open>' '.join(xs)\<close> on values of any kind: an item that is not a string raises TypeError.
\<close>

fun strings_of :: "ctlval list \<Rightarrow> string list option" where
  "strings_of [] = Some []"
| "strings_of (VStr x # vs) = map_option ((#) x) (strings_of vs)"
| "strings_of (v # vs) = None"

definition py_join :: "string \<Rightarrow> ctlval list \<Rightarrow> error + string" where
  "py_join sep vs = (case strings_of vs of None \<Rightarrow> Inl TypeError | Some xs \<Rightarrow> Inr (join sep xs))"

text \<open>
  A \<^verbatim>\<open>for\<close> loop that prints one text for each index and stops at the first exception:
  the texts printed so far, and the exception if one was raised.
\<close>

fun print_each :: "(nat \<Rightarrow> error + string) \<Rightarrow> nat list \<Rightarrow> stdout \<Rightarrow> stdout \<times> error option" where
  "print_each f [] out = (out, None)"
| "print_each f (i # ns) out =
     (case f i of Inl e \<Rightarrow> (out, Some e) | Inr line \<Rightarrow> print_each f ns (print line out))"

text \<open>
  The variant without a decorator shows the text box and an output area, and registers on
  the text box a second function of the name \<^verbatim>\<open>print10X\<close>:
  \<^verbatim>\<open>
  output = widgets.Output()
  display(textWidget, output)
  def print10X(change):
      inputStr = change['new']
      with output:
          print(change)
          for i in range (10):
              print(' '.join([inputStr, str(i)]))
  textWidget.observe(print10X, names='value')
  \<close>
  A change is a dictionary; of its printed form the model keeps the text as given. The
  output area holds the texts printed into it and the tracebacks it has shown.
\<close>

record change =
  change_items :: "(string \<times> ctlval) list"
  change_text :: string

datatype area_item = Line string | Shown_traceback error

type_synonym area = "area_item list"

text \<open>The block under \<^verbatim>\<open>with output:\<close>, run on what \<^verbatim>\<open>change['new']\<close> gave.\<close>

definition observer_body :: "ctlval \<Rightarrow> change \<Rightarrow> stdout \<times> error option" where
  "observer_body inputStr chg =
     print_each (\<lambda>i. py_join '' '' [inputStr, VStr (str_int (int i))]) [0..<10]
       (print (change_text chg) [])"

text \<open>
  \<^verbatim>\<open>with output:\<close> is the output area as a context manager, the widget library's: what
  the block prints goes into the area, and an exception raised in the block is caught
  there and shown in the area as a traceback, after which the statement is left normally.
\<close>

definition with_output :: "stdout \<times> error option \<Rightarrow> area \<Rightarrow> area" where
  "with_output block a =
     a @ map Line (fst block) @ (case snd block of None \<Rightarrow> [] | Some e \<Rightarrow> [Shown_traceback e])"

text \<open>\<^verbatim>\<open>change['new']\<close> raises KeyError when the dictionary has no such key.\<close>

definition print10X_observer :: "change \<Rightarrow> area \<Rightarrow> error + area" where
  "print10X_observer chg a =
     (case map_of (change_items chg) ''new'' of
        None \<Rightarrow> Inl KeyError
      | Some inputStr \<Rightarrow> Inr (with_output (observer_body inputStr chg) a))"



section \<open>The notebook session\<close>

text \<open>
  The world a session runs in and can change: the settings of the plotting library (for
  every registry of the library, by its name, the entry that is active), the environment
  variables, the file system, the dataframe objects in memory, the globals
  \<^verbatim>\<open>birdStrikesDF\<close>, \<^verbatim>\<open>costRangeInData\<close> and \<^verbatim>\<open>irisDF\<close> (unbound until their cell
  has run; a dataframe global holds a reference to an object), the text printed, the output
  area of the observed text box, and the outputs shown. The catalogue \<^verbatim>\<open>data\<close> of
  sample datasets is given from outside.
\<close>

record catalog =
  birdstrikes :: dataframe
  iris :: dataframe

datatype shown =
    Table dataframe
  | Range "int \<times> int"
  | Figure chart
  | Layers layer_chart
  | Widget control
  | Traceback error

type_synonym ref = nat

record session =
  settings :: "string \<Rightarrow> string"
  environ :: "string \<rightharpoonup> string"
  files :: "string \<rightharpoonup> string"
  frames :: "dataframe list"
  birdStrikesDF :: "ref option"
  costRange_global :: "(int \<times> int) option"
  irisDF :: "ref option"
  printed :: stdout
  captured :: area
  outputs :: "shown list"

text \<open>
  A statement or a call runs in the session: it gives a value or raises, and leaves the
  session as it has changed it.
\<close>

type_synonym 'a action = "session \<Rightarrow> (error + 'a) \<times> session"

text \<open>\<^verbatim>\<open>alt.<registry>.enable(name)\<close>.\<close>

definition enable :: "string \<Rightarrow> string \<Rightarrow> session \<Rightarrow> session" where
  "enable registry name s = s\<lparr>settings := (settings s)(registry := name)\<rparr>"

text \<open>
  \<^verbatim>\<open>data.birdstrikes()\<close> and \<^verbatim>\<open>data.iris()\<close> make a new dataframe object; the
  reference to it is its index among the objects.
\<close>

definition new_frame :: "dataframe \<Rightarrow> session \<Rightarrow> ref \<times> session" where
  "new_frame df s = (length (frames s), s\<lparr>frames := frames s @ [df]\<rparr>)"

definition frame_at :: "session \<Rightarrow> ref \<Rightarrow> dataframe option" where
  "frame_at s a = (if a < length (frames s) then Some (frames s ! a) else None)"

definition frame_of :: "(session \<Rightarrow> ref option) \<Rightarrow> session \<Rightarrow> dataframe option" where
  "frame_of var s = (case var s of None \<Rightarrow> None | Some a \<Rightarrow> frame_at s a)"

text \<open>
  Reading a global that is not bound yet raises NameError. A reference to no object does
  not arise from the steps below; the model reads it as an unbound name.
\<close>

definition read_global :: "(session \<Rightarrow> 'a option) \<Rightarrow> 'a action" where
  "read_global var s = (case var s of None \<Rightarrow> (Inl NameError, s) | Some v \<Rightarrow> (Inr v, s))"

definition read_frame :: "(session \<Rightarrow> ref option) \<Rightarrow> dataframe action" where
  "read_frame var s =
     (case frame_of var s of None \<Rightarrow> (Inl NameError, s) | Some df \<Rightarrow> (Inr df, s))"

definition display :: "shown \<Rightarrow> session \<Rightarrow> session" where
  "display x s = s\<lparr>outputs := outputs s @ [x]\<rparr>"

subsection \<open>The callbacks as they run in the session\<close>

text \<open>
  A text callback prints; a chart callback reads the dataframe global it names and returns
  the chart built from the object the global refers to.
\<close>

definition run_print10X :: "string \<Rightarrow> unit action" where
  "run_print10X str1 s = (Inr (), s\<lparr>printed := print10X str1 (printed s)\<rparr>)"

definition run_print10XPair :: "string \<Rightarrow> string \<Rightarrow> unit action" where
  "run_print10XPair str1 str2 s = (Inr (), s\<lparr>printed := print10XPair str1 str2 (printed s)\<rparr>)"

definition run_times10 :: "int \<Rightarrow> unit action" where
  "run_times10 x s = (Inr (), s\<lparr>printed := times10 x (printed s)\<rparr>)"

definition run_print10X_observer :: "change \<Rightarrow> unit action" where
  "run_print10X_observer chg s =
     (case print10X_observer chg (captured s) of
        Inl e \<Rightarrow> (Inl e, s)
      | Inr a \<Rightarrow> (Inr (), s\<lparr>captured := a\<rparr>))"

definition chart_of_global :: "(session \<Rightarrow> ref option) \<Rightarrow> (dataframe \<Rightarrow> 'a) \<Rightarrow> 'a action" where
  "chart_of_global var build s =
     (case read_frame var s of
        (Inl e, s') \<Rightarrow> (Inl e, s')
      | (Inr df, s') \<Rightarrow> (Inr (build df), s'))"

definition run_barChart :: "string \<Rightarrow> chart action" where
  "run_barChart xcol = chart_of_global birdStrikesDF (\<lambda>df. barChart df xcol)"

definition run_barChartRanges :: "string \<Rightarrow> int \<times> int \<Rightarrow> chart action" where
  "run_barChartRanges xcol costRange =
     chart_of_global birdStrikesDF (\<lambda>df. barChartRanges df xcol costRange)"

definition run_irisScatter_first :: "chart action" where
  "run_irisScatter_first = chart_of_global irisDF irisScatter_first"

definition run_irisScatter :: "chart action" where
  "run_irisScatter = chart_of_global irisDF irisScatter"

definition run_irisBrushScatter :: "chart action" where
  "run_irisBrushScatter = chart_of_global irisDF irisBrushScatter"

text \<open>
  The session shows what a cell or a callback returns, or the traceback of what it raises.
\<close>

definition show_value :: "('a \<Rightarrow> shown) \<Rightarrow> 'a action \<Rightarrow> session \<Rightarrow> session" where
  "show_value as act s =
     (case act s of
        (Inl e, s') \<Rightarrow> display (Traceback e) s'
      | (Inr v, s') \<Rightarrow> display (as v) s')"

definition finish :: "unit action \<Rightarrow> session \<Rightarrow> session" where
  "finish act s =
     (case act s of
        (Inl e, s') \<Rightarrow> display (Traceback e) s'
      | (Inr u, s') \<Rightarrow> s')"

subsection \<open>The steps of a session\<close>

text \<open>
  A step runs one cell or, after a change of a control, one call of a callback. A cell that
  binds a callback with \<^verbatim>\<open>@interact\<close> calls it once with the initial values; the cell of
  \<^verbatim>\<open>barChartRanges\<close> takes the initial range from the global \<^verbatim>\<open>costRangeInData\<close>. What
  the two configuration cells show as their value is left out, as are the import cell and
  the cell that shows the versions of the libraries.
\<close>

datatype event =
    Enable_vegafusion
  | Enable_png
  | Load_birdstrikes
  | Show_phase_bars
  | Show_titled_phase_bars
  | Compute_costRange
  | Bind_barChartRanges
  | Load_iris
  | Show_textWidget
  | Show_median_layers
  | Call_print10X string
  | Call_print10X_observer change
  | Call_print10XPair string string
  | Call_times10 int
  | Call_barChart string
  | Call_barChartRanges string "int \<times> int"
  | Call_irisScatter_first
  | Call_irisScatter
  | Call_irisBrushScatter

fun step :: "catalog \<Rightarrow> event \<Rightarrow> session \<Rightarrow> session" where
  "step cat Enable_vegafusion s = enable ''data_transformers'' ''vegafusion'' s"
| "step cat Enable_png s = enable ''renderers'' ''png'' s"
| "step cat Load_birdstrikes s =
     (case new_frame (birdstrikes cat) s of
        (a, s') \<Rightarrow> display (Table (birdstrikes cat)) (s'\<lparr>birdStrikesDF := Some a\<rparr>))"
| "step cat Show_phase_bars s = show_value Figure (chart_of_global birdStrikesDF phase_bars) s"
| "step cat Show_titled_phase_bars s =
     show_value Figure (chart_of_global birdStrikesDF titled_phase_bars) s"
| "step cat Compute_costRange s =
     (case read_frame birdStrikesDF s of
        (Inl e, s') \<Rightarrow> display (Traceback e) s'
      | (Inr df, s') \<Rightarrow>
          (case costRangeInData df of
             Inl e \<Rightarrow> display (Traceback e) s'
           | Inr cr \<Rightarrow> display (Range cr) (s'\<lparr>costRange_global := Some cr\<rparr>)))"
| "step cat Bind_barChartRanges s =
     (case read_global costRange_global s of
        (Inl e, s') \<Rightarrow> display (Traceback e) s'
      | (Inr cr, s') \<Rightarrow> show_value Figure (run_barChartRanges ''When__Phase_of_flight'' cr) s')"
| "step cat Load_iris s =
     (case new_frame (iris cat) s of
        (a, s') \<Rightarrow> display (Table (iris cat)) (s'\<lparr>irisDF := Some a\<rparr>))"
| "step cat Show_textWidget s = display (Widget textWidget) s"
| "step cat Show_median_layers s = show_value Layers (chart_of_global irisDF median_layers) s"
| "step cat (Call_print10X str1) s = finish (run_print10X str1) s"
| "step cat (Call_print10X_observer chg) s = finish (run_print10X_observer chg) s"
| "step cat (Call_print10XPair str1 str2) s = finish (run_print10XPair str1 str2) s"
| "step cat (Call_times10 x) s = finish (run_times10 x) s"
| "step cat (Call_barChart xcol) s = show_value Figure (run_barChart xcol) s"
| "step cat (Call_barChartRanges xcol costRange) s =
     show_value Figure (run_barChartRanges xcol costRange) s"
| "step cat Call_irisScatter_first s = show_value Figure run_irisScatter_first s"
| "step cat Call_irisScatter s = show_value Figure run_irisScatter s"
| "step cat Call_irisBrushScatter s = show_value Figure run_irisBrushScatter s"

definition run :: "catalog \<Rightarrow> event list \<Rightarrow> session \<Rightarrow> session" where
  "run cat evs s = fold (step cat) evs s"

text \<open>The dataframe objects a step creates.\<close>

fun loaded :: "catalog \<Rightarrow> event \<Rightarrow> dataframe list" where
  "loaded cat Load_birdstrikes = [birdstrikes cat]"
| "loaded cat Load_iris = [iris cat]"
| "loaded cat ev = []"

text \<open>The cells of the notebook in their order.\<close>

definition notebook :: "event list" where
  "notebook =
     [Enable_vegafusion, Enable_png, Call_print10X ''Hello'', Show_textWidget,
      Call_print10XPair ''Hello'' ''World!'', Call_times10 7, Load_birdstrikes,
      Show_phase_bars, Show_titled_phase_bars, Call_barChart ''When__Phase_of_flight'',
      Compute_costRange, Bind_barChartRanges, Load_iris, Call_irisScatter_first,
      Call_irisScatter, Call_irisBrushScatter, Show_median_layers]"

text \<open>The session \<open>s\<close> with another environment and another file system.\<close>

definition in_world :: "(string \<rightharpoonup> string) \<Rightarrow> (string \<rightharpoonup> string) \<Rightarrow> session \<Rightarrow> session" where
  "in_world env fs s = s\<lparr>environ := env, files := fs\<rparr>"

section \<open>A small dataset\<close>

text \<open>Three bird strikes with the two columns the notebook names, to run the model on.\<close>

definition sample_strikes :: dataframe where
  "sample_strikes =
     \<lparr>columns = [''When__Phase_of_flight'', ''Cost__Total_$''],
      rows = [[(''When__Phase_of_flight'', Str ''Climb''), (''Cost__Total_$'', Num 1500)],
              [(''When__Phase_of_flight'', Str ''Approach''), (''Cost__Total_$'', Num 30736)],
              [(''When__Phase_of_flight'', Str ''Climb''), (''Cost__Total_$'', Num 0)]]\<rparr>"

definition sample_iris :: dataframe where
  "sample_iris =
     \<lparr>columns = [''sepalLength'', ''sepalWidth'', ''petalLength'', ''petalWidth'', ''species''],
      rows = [[(''sepalLength'', Num 5.1), (''sepalWidth'', Num 3.5), (''petalLength'', Num 1.4),
               (''petalWidth'', Num 0.2), (''species'', Str ''setosa'')]]\<rparr>"

definition sample_catalog :: catalog where
  "sample_catalog = \<lparr>birdstrikes = sample_strikes, iris = sample_iris\<rparr>"

text \<open>
  A session in which nothing has run: every registry at the library's default, no object,
  no global bound, with one environment variable and one file for the model to leave alone.
\<close>

definition fresh_session :: session where
  "fresh_session =
     \<lparr>settings = (\<lambda>registry. ''default''),
      environ = [''HOME'' \<mapsto> ''/home/user''],
      files = [''/home/user/notes.txt'' \<mapsto> ''kept''],
      frames = [], birdStrikesDF = None, costRange_global = None, irisDF = None,
      printed = [], captured = [], outputs = []\<rparr>"

section \<open>Properties of the text callbacks\<close>

lemma fold_print: "fold (\<lambda>i. print (f i)) xs out = out @ map f xs"
  by (induction xs arbitrary: out) (simp_all add: print_def)

lemma print10X_lines:
  "print10X str1 out = out @ map (\<lambda>i. str1 @ '' '' @ str_int (int i)) [0..<10]"
  unfolding print10X_def by (simp only: fold_print join.simps)

lemma print10XPair_lines:
  "print10XPair str1 str2 out =
     out @ map (\<lambda>i. str1 @ '' '' @ str2 @ '' '' @ str_int (int i)) [0..<10]"
  unfolding print10XPair_def by (simp only: fold_print join.simps)

text \<open>
  C10. The two-control callback \<open>print10XPair s1 s2\<close> prints what the one-control
  callback \<open>print10X\<close> prints for the single string \<open>s1 @ '' '' @ s2\<close>: started on an empty
  output, both make exactly ten prints, and the \<open>i\<close>-th of them (\<open>i\<close> from 0 to 9) is the
  input strings and the decimal rendering of \<open>i\<close> joined by single spaces.
\<close>

theorem print10XPair_eq_print10X:
  "print10XPair s1 s2 out = print10X (s1 @ '' '' @ s2) out
   \<and> length (print10XPair s1 s2 []) = 10
   \<and> length (print10X (s1 @ '' '' @ s2) []) = 10
   \<and> (\<forall>i < 10. print10XPair s1 s2 [] ! i = join '' '' [s1, s2, str_int (int i)]
               \<and> print10X (s1 @ '' '' @ s2) [] ! i = join '' '' [s1 @ '' '' @ s2, str_int (int i)]
               \<and> print10XPair s1 s2 [] ! i = s1 @ '' '' @ s2 @ '' '' @ str_int (int i))"
proof -
  have eq: "print10XPair s1 s2 out = print10X (s1 @ '' '' @ s2) out" for out
    by (simp add: print10X_lines print10XPair_lines)
  have len: "length (print10XPair s1 s2 []) = 10"
    by (simp add: print10XPair_lines)
  have nth: "print10XPair s1 s2 [] ! i = s1 @ '' '' @ s2 @ '' '' @ str_int (int i)"
    if "i < 10" for i
    using that by (simp add: print10XPair_lines del: upt_Suc)
  show ?thesis
    using eq len nth by simp
qed

theorem print10XPair_eq_print10X_witness:
  "print10XPair ''Hello'' ''World!'' [] = print10X ''Hello World!'' []
   \<and> print10XPair ''Hello'' ''World!'' [] ! 3 = ''Hello World! 3''
   \<and> print10X ''Hello World!'' [] ! 3 = ''Hello World! 3''"
proof -
  have three: "str_int (int 3) = ''3''"
    by (simp add: str_int_def str_nat.simps digit_char_def)
  have lt: "(3::nat) < 10" by simp
  from print10XPair_eq_print10X [of "''Hello''" "''World!''" "[]"] lt three
  show ?thesis by force
qed

section \<open>Properties of the bar charts\<close>

lemmas chart_defs = encode_def mark_bar_def mark_point_def mark_rule_def Chart_def
  no_channels_def override_def transform_filter_def add_params_def

text \<open>
  C1. For every column name \<open>xcol\<close> the callback \<open>barChart\<close> returns a bar chart over the
  bird strikes data whose x channel is \<open>xcol\<close> and whose y channel is the aggregate
  \<open>count()\<close>.
\<close>

theorem barChart_x_is_selected_column:
  "enc_x (encoding (barChart df xcol)) = Some (Shorthand xcol)
   \<and> enc_y (encoding (barChart df xcol)) = Some (Shorthand ''count()'')
   \<and> mark (barChart df xcol) = Some Bar
   \<and> data (barChart df xcol) = Some df"
  by (simp add: barChart_def chart_defs)

lemma barChartRanges_transforms:
  "transforms (barChartRanges df xcol (lo, hi)) =
     [Filter (And (GE (Datum costCol) (Lit (lo * 1000))) (LE (Datum costCol) (Lit (hi * 1000))))]"
  by (simp add: barChartRanges_def chart_defs)

lemma barChartRanges_data: "data (barChartRanges df xcol cr) = Some df"
  by (simp add: barChartRanges_def chart_defs)

lemma holds_cost_range:
  "holds (And (GE (Datum costCol) (Lit (lo * 1000))) (LE (Datum costCol) (Lit (hi * 1000)))) =
     (\<lambda>r. case cell_of r costCol of
             Num c \<Rightarrow> real_of_int (lo * 1000) \<le> c \<and> c \<le> real_of_int (hi * 1000)
           | _ \<Rightarrow> False)"
  by (rule ext) (simp split: cell.splits)

lemma barChartRanges_rows:
  "chart_rows inside (barChartRanges df xcol (lo, hi)) =
     filter (\<lambda>r. case cell_of r costCol of
                   Num c \<Rightarrow> real_of_int (lo * 1000) \<le> c \<and> c \<le> real_of_int (hi * 1000)
                 | _ \<Rightarrow> False) (rows df)"
  by (simp add: chart_rows_def barChartRanges_transforms barChartRanges_data holds_cost_range
        del: holds.simps)

lemma barChart_rows: "chart_rows inside (barChart df xcol) = rows df"
  by (simp add: chart_rows_def barChart_def chart_defs)

text \<open>
  C2. For every pair of integers \<open>(lo, hi)\<close> given as the value of the cost range control
  and every column \<open>xcol\<close>, the chart of \<open>barChartRanges\<close> has one filter transform, and
  that filter keeps exactly the rows whose cost is a number \<open>c\<close> with
  \<open>lo * 1000 \<le> c\<close> and \<open>c \<le> hi * 1000\<close>, both bounds included.
\<close>

theorem barChartRanges_filters_cost_range:
  "transforms (barChartRanges df xcol (lo, hi)) =
     [Filter (And (GE (Datum costCol) (Lit (lo * 1000))) (LE (Datum costCol) (Lit (hi * 1000))))]
   \<and> data (barChartRanges df xcol (lo, hi)) = Some df
   \<and> enc_x (encoding (barChartRanges df xcol (lo, hi))) = Some (Shorthand xcol)
   \<and> chart_rows inside (barChartRanges df xcol (lo, hi)) =
       filter (\<lambda>r. case cell_of r costCol of
                     Num c \<Rightarrow> real_of_int (lo * 1000) \<le> c \<and> c \<le> real_of_int (hi * 1000)
                   | _ \<Rightarrow> False) (rows df)"
proof -
  have "enc_x (encoding (barChartRanges df xcol (lo, hi))) = Some (Shorthand xcol)"
    by (simp add: barChartRanges_def chart_defs)
  then show ?thesis
    by (simp add: barChartRanges_transforms barChartRanges_data barChartRanges_rows)
qed

subsection \<open>The cost range of the data\<close>

lemma numbers_mem: "numbers cs = Inr xs \<Longrightarrow> Num v \<in> set cs \<Longrightarrow> v \<in> set xs"
proof (induction cs arbitrary: xs rule: numbers.induct)
  case 1
  then show ?case by simp
next
  case (2 x cs)
  then show ?case by (auto split: sum.splits)
next
  case (3 cs)
  then show ?case by auto
next
  case (4 s cs)
  then show ?case by simp
qed

lemma numbers_all_Num:
  "\<forall>c \<in> set cs. \<exists>v. c = Num v \<Longrightarrow> \<exists>xs. numbers cs = Inr xs \<and> length xs = length cs"
  by (induction cs) auto

lemma fold_min_le: "v \<in> set (x # xs) \<Longrightarrow> fold min xs x \<le> (v::real)"
proof -
  assume "v \<in> set (x # xs)"
  then have "Min (set (x # xs)) \<le> v" by (intro Min_le) auto
  then show ?thesis by (simp only: Min.set_eq_fold)
qed

lemma fold_max_ge: "v \<in> set (x # xs) \<Longrightarrow> (v::real) \<le> fold max xs x"
proof -
  assume "v \<in> set (x # xs)"
  then have "v \<le> Max (set (x # xs))" by (intro Max_ge) auto
  then show ?thesis by (simp only: Max.set_eq_fold)
qed

lemma floor_thousand: "real_of_int (\<lfloor>m / 1000\<rfloor> * 1000) \<le> m"
proof -
  have "real_of_int \<lfloor>m / 1000\<rfloor> \<le> m / 1000" by (rule of_int_floor_le)
  moreover have "real_of_int (\<lfloor>m / 1000\<rfloor> * 1000) = real_of_int \<lfloor>m / 1000\<rfloor> * 1000"
    by simp
  ultimately show ?thesis by linarith
qed

lemma ceiling_thousand: "m \<le> real_of_int (\<lceil>m / 1000\<rceil> * 1000)"
proof -
  have "m / 1000 \<le> real_of_int \<lceil>m / 1000\<rceil>" by (rule le_of_int_ceiling)
  moreover have "real_of_int (\<lceil>m / 1000\<rceil> * 1000) = real_of_int \<lceil>m / 1000\<rceil> * 1000"
    by simp
  ultimately show ?thesis by linarith
qed

lemma costRange_cases:
  assumes "costRangeInData df = Inr (lo, hi)"
  obtains x xs where "costCol \<in> set (columns df)"
    and "numbers (map (\<lambda>r. cell_of r costCol) (rows df)) = Inr (x # xs)"
    and "lo = \<lfloor>fold min xs x / 1000\<rfloor>" and "hi = \<lceil>fold max xs x / 1000\<rceil>"
  using assms
  by (auto simp: costRangeInData_def series_def split: if_splits sum.splits list.splits)

lemma costRange_bounds:
  assumes "costRangeInData df = Inr (lo, hi)" and "r \<in> set (rows df)"
    and "cell_of r costCol = Num c"
  shows "real_of_int (lo * 1000) \<le> c \<and> c \<le> real_of_int (hi * 1000)"
proof -
  from assms(1) obtain x xs where
    nums: "numbers (map (\<lambda>r. cell_of r costCol) (rows df)) = Inr (x # xs)" and
    lo: "lo = \<lfloor>fold min xs x / 1000\<rfloor>" and hi: "hi = \<lceil>fold max xs x / 1000\<rceil>"
    by (rule costRange_cases)
  from assms(2,3) have "Num c \<in> set (map (\<lambda>r. cell_of r costCol) (rows df))"
    by force
  with nums have mem: "c \<in> set (x # xs)" by (rule numbers_mem)
  have "real_of_int (lo * 1000) \<le> fold min xs x" unfolding lo by (rule floor_thousand)
  moreover have "fold min xs x \<le> c" using mem by (rule fold_min_le)
  moreover have "c \<le> fold max xs x" using mem by (rule fold_max_ge)
  moreover have "fold max xs x \<le> real_of_int (hi * 1000)" unfolding hi by (rule ceiling_thousand)
  ultimately show ?thesis by linarith
qed

lemma costRange_ordered:
  assumes "costRangeInData df = Inr (lo, hi)"
  shows "lo \<le> hi"
proof -
  from assms obtain x :: real and xs where
    lo: "lo = \<lfloor>fold min xs x / 1000\<rfloor>" and hi: "hi = \<lceil>fold max xs x / 1000\<rceil>"
    by (rule costRange_cases)
  have "fold min xs x \<le> x" by (rule fold_min_le) simp
  moreover have "x \<le> fold max xs x" by (rule fold_max_ge) simp
  ultimately have "fold min xs x / 1000 \<le> fold max xs x / 1000" by simp
  then have "\<lfloor>fold min xs x / 1000\<rfloor> \<le> \<lceil>fold max xs x / 1000\<rceil>"
    by (meson ceiling_mono floor_le_ceiling order_trans)
  then show ?thesis by (simp add: lo hi)
qed

lemma costRange_defined:
  assumes "costCol \<in> set (columns df)" and "rows df \<noteq> []"
    and "\<forall>r \<in> set (rows df). \<exists>c. cell_of r costCol = Num c"
  shows "\<exists>lo hi. costRangeInData df = Inr (lo, hi)"
proof -
  from assms(3) have "\<forall>c \<in> set (map (\<lambda>r. cell_of r costCol) (rows df)). \<exists>v. c = Num v"
    by auto
  then obtain xs where xs: "numbers (map (\<lambda>r. cell_of r costCol) (rows df)) = Inr xs"
    and len: "length xs = length (map (\<lambda>r. cell_of r costCol) (rows df))"
    using numbers_all_Num by blast
  from len assms(2) have "xs \<noteq> []" by auto
  then obtain y ys where "xs = y # ys" by (cases xs) auto
  with xs assms(1) show ?thesis
    by (simp add: costRangeInData_def series_def)
qed

lemma sample_costRange: "costRangeInData sample_strikes = Inr (0, 31)"
  by (simp add: costRangeInData_def series_def sample_strikes_def costCol_def cell_of_def)

lemma sample_costs:
  "costCol \<in> set (columns sample_strikes) \<and> rows sample_strikes \<noteq> []
   \<and> (\<forall>r \<in> set (rows sample_strikes). \<exists>c. cell_of r costCol = Num c)"
  by (simp add: sample_strikes_def costCol_def cell_of_def)

text \<open>
  C9. For a dataset that has the cost column, has a row, and gives a number as the cost of
  every row, the cost range \<open>(\<lfloor>min / 1000\<rfloor>, \<lceil>max / 1000\<rceil>)\<close> is computed, the filter of
  \<open>barChartRanges\<close> at that range holds for every row, and the chart first displayed keeps
  exactly the rows of the unfiltered bar chart over the same column.
\<close>

theorem initial_cost_range_keeps_every_row:
  assumes "costCol \<in> set (columns df)" and "rows df \<noteq> []"
    and "\<forall>r \<in> set (rows df). \<exists>c. cell_of r costCol = Num c"
  shows "\<exists>lo hi. costRangeInData df = Inr (lo, hi)
           \<and> (\<forall>r \<in> set (rows df).
                 holds (And (GE (Datum costCol) (Lit (lo * 1000)))
                            (LE (Datum costCol) (Lit (hi * 1000)))) r)
           \<and> transforms (barChartRanges df xcol (lo, hi)) =
               [Filter (And (GE (Datum costCol) (Lit (lo * 1000)))
                            (LE (Datum costCol) (Lit (hi * 1000))))]
           \<and> chart_rows inside (barChartRanges df xcol (lo, hi)) = rows df
           \<and> chart_rows inside (barChartRanges df xcol (lo, hi))
               = chart_rows inside (barChart df xcol)"
proof -
  from costRange_defined [OF assms] obtain lo hi where cr: "costRangeInData df = Inr (lo, hi)"
    by blast
  have keep: "case cell_of r costCol of
                Num c \<Rightarrow> real_of_int (lo * 1000) \<le> c \<and> c \<le> real_of_int (hi * 1000)
              | _ \<Rightarrow> False" if "r \<in> set (rows df)" for r
  proof -
    from assms(3) that obtain c where c: "cell_of r costCol = Num c" by blast
    with costRange_bounds [OF cr that c] show ?thesis by simp
  qed
  then have all: "chart_rows inside (barChartRanges df xcol (lo, hi)) = rows df"
    by (simp add: barChartRanges_rows)
  have "holds (And (GE (Datum costCol) (Lit (lo * 1000)))
                   (LE (Datum costCol) (Lit (hi * 1000)))) r"
    if "r \<in> set (rows df)" for r
    using keep [OF that] by (simp add: holds_cost_range del: holds.simps)
  with cr all show ?thesis
    by (auto simp: barChart_rows barChartRanges_transforms simp del: holds.simps)
qed

theorem initial_cost_range_keeps_every_row_witness:
  "costRangeInData sample_strikes = Inr (0, 31)
   \<and> chart_rows (\<lambda>b r. True) (barChartRanges sample_strikes ''When__Phase_of_flight'' (0, 31))
       = rows sample_strikes
   \<and> chart_rows (\<lambda>b r. True) (barChartRanges sample_strikes ''When__Phase_of_flight'' (0, 31))
       = chart_rows (\<lambda>b r. True) (barChart sample_strikes ''When__Phase_of_flight'')"
proof -
  from sample_costs have a: "costCol \<in> set (columns sample_strikes)"
    and b: "rows sample_strikes \<noteq> []"
    and c: "\<forall>r \<in> set (rows sample_strikes). \<exists>c. cell_of r costCol = Num c"
    by blast+
  from initial_cost_range_keeps_every_row
         [where df = sample_strikes and inside = "\<lambda>b r. True"
            and xcol = "''When__Phase_of_flight''", OF a b c]
  obtain lo hi where cr: "costRangeInData sample_strikes = Inr (lo, hi)"
    and all: "chart_rows (\<lambda>b r. True)
                (barChartRanges sample_strikes ''When__Phase_of_flight'' (lo, hi))
                = rows sample_strikes"
    and same: "chart_rows (\<lambda>b r. True)
                (barChartRanges sample_strikes ''When__Phase_of_flight'' (lo, hi))
                = chart_rows (\<lambda>b r. True) (barChart sample_strikes ''When__Phase_of_flight'')"
    by blast
  from cr have "lo = 0" and "hi = 31"
    by (simp_all add: sample_costRange)
  with all same show ?thesis
    by (simp only: sample_costRange simp_thms)
qed

section \<open>Properties of the brushed scatter plot\<close>

text \<open>
  C6. The chart of \<open>irisBrushScatter\<close> declares one selection, an interval over exactly the
  encodings x and y, and only the size channel is conditioned on it: a mark inside the
  selection is drawn with size 50 and a mark outside with size 1, whatever the selection
  is. The x, y and colour channels refer to no selection, the tooltip is a list of fields,
  and no filter uses the selection.
\<close>

theorem irisBrushScatter_conditions_only_size:
  "params (irisBrushScatter df) = [Selection_interval [''x'', ''y'']]
   \<and> enc_size (encoding (irisBrushScatter df))
       = Some (Condition (Selection_interval [''x'', ''y'']) 50 1)
   \<and> mark_size inside (irisBrushScatter df) r
       = Some (if inside (Selection_interval [''x'', ''y'']) r then 50 else 1)
   \<and> channel_selections (encoding (irisBrushScatter df))
       = [(''x'', []), (''y'', []), (''color'', []),
          (''size'', [Selection_interval [''x'', ''y'']])]
   \<and> enc_x (encoding (irisBrushScatter df)) = Some (Shorthand ''sepalLength'')
   \<and> enc_y (encoding (irisBrushScatter df)) = Some (Shorthand ''petalLength'')
   \<and> enc_color (encoding (irisBrushScatter df)) = Some (Color ''sepalWidth'' ''purples'')
   \<and> enc_tooltip (encoding (irisBrushScatter df))
       = Some [''sepalLength'', ''petalLength'', ''sepalWidth'', ''petalWidth'']
   \<and> transforms (irisBrushScatter df) = []"
  by (simp add: irisBrushScatter_def chart_defs mark_size_def channel_selections_def Let_def)

section \<open>Properties of the controls\<close>

text \<open>
  C4. The controls the notebook constructs are of the four kinds (four text boxes, one
  integer slider, two dropdowns, one integer range slider), and each declares an initial
  value in its domain: the slider's 7 lies between 0 and 10, the range slider's initial
  pair is its minimum and maximum, and each dropdown's initial value is one of its options.
  The dropdowns list the columns of the dataset and the range slider takes the computed
  cost range, so this is for a dataset that has the column \<open>When__Phase_of_flight\<close> and
  whose cost range \<open>cr\<close> is computed.
\<close>

theorem notebook_controls_in_domain:
  assumes "''When__Phase_of_flight'' \<in> set (columns df)"
    and "costRangeInData df = Inr cr"
  shows "list_all in_domain (notebook_controls df cr)
     \<and> map kind_of (notebook_controls df cr)
         = [Free_text, Free_text, Free_text, Free_text, Integer, Single_choice, Single_choice,
            Integer_pair]
     \<and> (\<forall>v lo hi st d. IntSlider v lo hi st d \<in> set (notebook_controls df cr)
           \<longrightarrow> v = 7 \<and> lo = 0 \<and> hi = 10)
     \<and> (\<forall>v lo hi st d. IntRangeSlider v lo hi st d \<in> set (notebook_controls df cr)
           \<longrightarrow> v = (lo, hi) \<and> v = cr)
     \<and> (\<forall>opts v d. Dropdown opts v d \<in> set (notebook_controls df cr)
           \<longrightarrow> opts = columns df \<and> v \<in> set opts)"
proof -
  obtain lo hi where cr: "cr = (lo, hi)" by (cases cr)
  with assms(2) have "lo \<le> hi" by (simp add: costRange_ordered)
  with assms(1) cr show ?thesis
    by (simp add: notebook_controls_def controls_print10X_def textWidget_def
        controls_print10XPair_def controls_times10_def controls_barChart_def
        controls_barChartRanges_def)
qed

theorem notebook_controls_in_domain_witness:
  "''When__Phase_of_flight'' \<in> set (columns sample_strikes)
   \<and> costRangeInData sample_strikes = Inr (0, 31)
   \<and> list_all in_domain (notebook_controls sample_strikes (0, 31))
   \<and> IntRangeSlider (0, 31) 0 31 1 ''Cost range:'' \<in> set (notebook_controls sample_strikes (0, 31))"
proof -
  have a: "''When__Phase_of_flight'' \<in> set (columns sample_strikes)"
    by (simp add: sample_strikes_def)
  have b: "IntRangeSlider (0, 31) 0 31 1 ''Cost range:''
             \<in> set (notebook_controls sample_strikes (0, 31))"
    by (simp add: notebook_controls_def controls_barChartRanges_def)
  from notebook_controls_in_domain [OF a sample_costRange] a b sample_costRange
  show ?thesis by blast
qed

section \<open>Properties of the binder\<close>

lemma times10_7: "times10 7 [] = [''70'']"
  by (simp add: times10_def print_def str_int_def str_nat.simps digit_char_def)

text \<open>
  C3. On first bind of each of the five binders of the notebook the callback is invoked
  exactly once, with the initial values of all its controls, no error is raised, and the
  output displayed is the callback's at those values: for the dropdown the chart
  \<open>barChart df ''When__Phase_of_flight''\<close>, for the slider what \<open>times10 7\<close> prints,
  the line \<open>70\<close>.
\<close>

theorem first_bind_invokes_once_with_initial_values:
  "interact controls_print10X call_print10X =
     (\<lparr>current = [VStr ''Hello''], invocations = [[VStr ''Hello'']],
       displayed = Some (Printed (print10X ''Hello'' []))\<rparr>, None)
   \<and> interact controls_print10XPair call_print10XPair =
     (\<lparr>current = [VStr ''Hello'', VStr ''World!''],
       invocations = [[VStr ''Hello'', VStr ''World!'']],
       displayed = Some (Printed (print10XPair ''Hello'' ''World!'' []))\<rparr>, None)
   \<and> interact controls_times10 call_times10 =
     (\<lparr>current = [VInt 7], invocations = [[VInt 7]],
       displayed = Some (Printed (times10 7 []))\<rparr>, None)
   \<and> times10 7 [] = [''70'']
   \<and> interact (controls_barChart df) (call_barChart df) =
     (\<lparr>current = [VStr ''When__Phase_of_flight''],
       invocations = [[VStr ''When__Phase_of_flight'']],
       displayed = Some (Rendered (barChart df ''When__Phase_of_flight''))\<rparr>, None)
   \<and> interact (controls_barChartRanges df cr) (call_barChartRanges df) =
     (\<lparr>current = [VStr ''When__Phase_of_flight'', VPair cr],
       invocations = [[VStr ''When__Phase_of_flight'', VPair cr]],
       displayed = Some (Rendered (barChartRanges df ''When__Phase_of_flight'' cr))\<rparr>, None)"
proof -
  have a: "interact controls_print10X call_print10X =
     (\<lparr>current = [VStr ''Hello''], invocations = [[VStr ''Hello'']],
       displayed = Some (Printed (print10X ''Hello'' []))\<rparr>, None)"
    by (simp add: interact_def invoke_def controls_print10X_def call_print10X_def)
  have b: "interact controls_print10XPair call_print10XPair =
     (\<lparr>current = [VStr ''Hello'', VStr ''World!''],
       invocations = [[VStr ''Hello'', VStr ''World!'']],
       displayed = Some (Printed (print10XPair ''Hello'' ''World!'' []))\<rparr>, None)"
    by (simp add: interact_def invoke_def controls_print10XPair_def call_print10XPair_def)
  have c: "interact controls_times10 call_times10 =
     (\<lparr>current = [VInt 7], invocations = [[VInt 7]],
       displayed = Some (Printed (times10 7 []))\<rparr>, None)"
    by (simp add: interact_def invoke_def controls_times10_def call_times10_def)
  have d: "interact (controls_barChart df) (call_barChart df) =
     (\<lparr>current = [VStr ''When__Phase_of_flight''],
       invocations = [[VStr ''When__Phase_of_flight'']],
       displayed = Some (Rendered (barChart df ''When__Phase_of_flight''))\<rparr>, None)"
    by (simp add: interact_def invoke_def controls_barChart_def call_barChart_def)
  have e: "interact (controls_barChartRanges df cr) (call_barChartRanges df) =
     (\<lparr>current = [VStr ''When__Phase_of_flight'', VPair cr],
       invocations = [[VStr ''When__Phase_of_flight'', VPair cr]],
       displayed = Some (Rendered (barChartRanges df ''When__Phase_of_flight'' cr))\<rparr>, None)"
    by (simp add: interact_def invoke_def controls_barChartRanges_def call_barChartRanges_def)
  from a b c d e times10_7 show ?thesis by (simp only: simp_thms)
qed

section \<open>Properties of the callbacks that raise\<close>












section \<open>Properties of the session\<close>

lemmas session_defs = enable_def new_frame_def frame_at_def frame_of_def read_global_def
  read_frame_def display_def chart_of_global_def show_value_def finish_def
  run_print10X_def run_print10XPair_def run_times10_def run_print10X_observer_def
  run_barChart_def run_barChartRanges_def run_irisScatter_first_def run_irisScatter_def
  run_irisBrushScatter_def

lemma step_frames: "frames (step cat ev s) = frames s @ loaded cat ev"
  by (cases ev) (auto simp: session_defs split: option.splits sum.splits prod.splits)

lemma run_frames: "frames (run cat evs s) = frames s @ concat (map (loaded cat) evs)"
  unfolding run_def
  by (induction evs arbitrary: s) (simp_all add: step_frames)

lemma step_birdStrikesDF:
  "frame_of birdStrikesDF s = Some df \<Longrightarrow> df = birdstrikes cat \<Longrightarrow>
   frame_of birdStrikesDF (step cat ev s) = Some df"
  by (cases ev)
     (auto simp: session_defs nth_append split: option.splits sum.splits prod.splits if_splits)

lemma step_irisDF:
  "frame_of irisDF s = Some df \<Longrightarrow> df = iris cat \<Longrightarrow>
   frame_of irisDF (step cat ev s) = Some df"
  by (cases ev)
     (auto simp: session_defs nth_append split: option.splits sum.splits prod.splits if_splits)

lemma run_birdStrikesDF:
  "frame_of birdStrikesDF s = Some (birdstrikes cat) \<Longrightarrow>
   frame_of birdStrikesDF (run cat evs s) = Some (birdstrikes cat)"
  unfolding run_def
  by (induction evs arbitrary: s) (simp_all add: step_birdStrikesDF)

lemma run_irisDF:
  "frame_of irisDF s = Some (iris cat) \<Longrightarrow> frame_of irisDF (run cat evs s) = Some (iris cat)"
  unfolding run_def
  by (induction evs arbitrary: s) (simp_all add: step_irisDF)

lemma step_world:
  "files (step cat ev s) = files s \<and> environ (step cat ev s) = environ s"
  by (cases ev) (auto simp: session_defs split: option.splits sum.splits prod.splits)

lemma run_world: "files (run cat evs s) = files s \<and> environ (run cat evs s) = environ s"
  unfolding run_def
  by (induction evs arbitrary: s) (simp_all add: step_world)

lemma chart_callbacks_read_only:
  "snd (run_barChart xcol s) = s \<and> snd (run_barChartRanges xcol costRange s) = s
   \<and> snd (run_irisScatter_first s) = s \<and> snd (run_irisScatter s) = s
   \<and> snd (run_irisBrushScatter s) = s"
  by (simp add: session_defs split: option.splits)

lemma text_callbacks_print_only:
  "snd (run_print10X str1 s) = s\<lparr>printed := print10X str1 (printed s)\<rparr>
   \<and> snd (run_print10XPair str1 str2 s) = s\<lparr>printed := print10XPair str1 str2 (printed s)\<rparr>
   \<and> snd (run_times10 x s) = s\<lparr>printed := times10 x (printed s)\<rparr>
   \<and> snd (run_print10X_observer chg s)
       = s\<lparr>captured := captured (snd (run_print10X_observer chg s))\<rparr>"
  by (simp add: session_defs split: sum.splits)

lemma barChart_reads_global:
  "frame_of birdStrikesDF s = Some df \<Longrightarrow>
   fst (run_barChart xcol s) = Inr (barChart df xcol)
   \<and> fst (run_barChartRanges xcol costRange s) = Inr (barChartRanges df xcol costRange)"
  by (simp add: run_barChart_def run_barChartRanges_def chart_of_global_def read_frame_def)

lemma iris_reads_global:
  "frame_of irisDF s = Some df \<Longrightarrow>
   fst (run_irisScatter s) = Inr (irisScatter df)
   \<and> fst (run_irisBrushScatter s) = Inr (irisBrushScatter df)"
  by (simp add: run_irisScatter_def run_irisBrushScatter_def chart_of_global_def read_frame_def)

text \<open>
  C7. Over every sequence of steps the dataframe objects in memory keep their columns, rows
  and cells: the objects after the steps are the objects before them, unchanged and in
  place, followed by the ones the loading cells have created from the catalogue. A global
  that refers to the dataset of the catalogue refers to it after the steps. The chart
  callbacks \<open>barChart\<close>, \<open>barChartRanges\<close>, \<open>irisScatter\<close> and \<open>irisBrushScatter\<close> return
  the chart of the object their global refers to and leave the whole session as it was; a
  text callback changes the printed text only, the observer its output area only. No step
  changes the file system.
\<close>

theorem datasets_immutable:
  "frames (run cat evs s) = frames s @ concat (map (loaded cat) evs)
   \<and> (frame_of birdStrikesDF s = Some (birdstrikes cat) \<longrightarrow>
        frame_of birdStrikesDF (run cat evs s) = Some (birdstrikes cat))
   \<and> (frame_of irisDF s = Some (iris cat) \<longrightarrow>
        frame_of irisDF (run cat evs s) = Some (iris cat))
   \<and> files (run cat evs s) = files s
   \<and> snd (run_barChart xcol s) = s
   \<and> snd (run_barChartRanges xcol costRange s) = s
   \<and> snd (run_irisScatter_first s) = s
   \<and> snd (run_irisScatter s) = s
   \<and> snd (run_irisBrushScatter s) = s
   \<and> (frame_of birdStrikesDF s = Some df \<longrightarrow>
        fst (run_barChart xcol s) = Inr (barChart df xcol)
        \<and> fst (run_barChartRanges xcol costRange s) = Inr (barChartRanges df xcol costRange))
   \<and> (frame_of irisDF s = Some df' \<longrightarrow>
        fst (run_irisScatter s) = Inr (irisScatter df')
        \<and> fst (run_irisBrushScatter s) = Inr (irisBrushScatter df'))
   \<and> snd (run_print10X str1 s) = s\<lparr>printed := print10X str1 (printed s)\<rparr>
   \<and> snd (run_print10XPair str1 str2 s) = s\<lparr>printed := print10XPair str1 str2 (printed s)\<rparr>
   \<and> snd (run_times10 x s) = s\<lparr>printed := times10 x (printed s)\<rparr>
   \<and> snd (run_print10X_observer chg s)
       = s\<lparr>captured := captured (snd (run_print10X_observer chg s))\<rparr>"
  using run_frames [of cat evs s] run_birdStrikesDF [of s cat evs] run_irisDF [of s cat evs]
    run_world [of cat evs s] chart_callbacks_read_only [of xcol s costRange]
    text_callbacks_print_only [of str1 s str2 x chg]
    barChart_reads_global [of s df xcol costRange] iris_reads_global [of s df']
  by (simp only: simp_thms) blast

lemma loaded_session:
  "frame_of birdStrikesDF (run sample_catalog [Load_birdstrikes, Load_iris] fresh_session)
     = Some (birdstrikes sample_catalog)
   \<and> frame_of irisDF (run sample_catalog [Load_birdstrikes, Load_iris] fresh_session)
     = Some (iris sample_catalog)"
  by (simp add: run_def session_defs fresh_session_def)

theorem datasets_immutable_witness:
  "frame_of birdStrikesDF
     (run sample_catalog notebook
        (run sample_catalog [Load_birdstrikes, Load_iris] fresh_session))
     = Some sample_strikes
   \<and> frame_of irisDF
     (run sample_catalog notebook
        (run sample_catalog [Load_birdstrikes, Load_iris] fresh_session))
     = Some sample_iris
   \<and> files
     (run sample_catalog notebook
        (run sample_catalog [Load_birdstrikes, Load_iris] fresh_session))
     = [''/home/user/notes.txt'' \<mapsto> ''kept'']
   \<and> fst (run_barChart ''Cost__Total_$''
            (run sample_catalog [Load_birdstrikes, Load_iris] fresh_session))
     = Inr (barChart sample_strikes ''Cost__Total_$'')
   \<and> fst (run_irisBrushScatter
            (run sample_catalog [Load_birdstrikes, Load_iris] fresh_session))
     = Inr (irisBrushScatter sample_iris)"
proof -
  let ?s = "run sample_catalog [Load_birdstrikes, Load_iris] fresh_session"
  have a: "frame_of birdStrikesDF ?s = Some (birdstrikes sample_catalog)"
    and b: "frame_of irisDF ?s = Some (iris sample_catalog)"
    using loaded_session by blast+
  have c: "birdstrikes sample_catalog = sample_strikes \<and> iris sample_catalog = sample_iris"
    by (simp add: sample_catalog_def)
  have d: "files ?s = [''/home/user/notes.txt'' \<mapsto> ''kept'']"
    using run_world [of sample_catalog "[Load_birdstrikes, Load_iris]" fresh_session]
    by (simp add: fresh_session_def)
  from a b c d
    datasets_immutable [of sample_catalog notebook ?s "''Cost__Total_$''" _ sample_strikes
      sample_iris]
  show ?thesis by (simp only: simp_thms)
qed

lemma step_settings:
  "settings (step cat ev s) =
     (if ev = Enable_vegafusion then (settings s)(''data_transformers'' := ''vegafusion'')
      else if ev = Enable_png then (settings s)(''renderers'' := ''png'')
      else settings s)"
  by (cases ev) (auto simp: session_defs split: option.splits sum.splits prod.splits)

lemma run_settings:
  "settings (run cat evs s) k =
     (if k = ''data_transformers'' \<and> Enable_vegafusion \<in> set evs then ''vegafusion''
      else if k = ''renderers'' \<and> Enable_png \<in> set evs then ''png''
      else settings s k)"
  unfolding run_def
proof (induction evs arbitrary: s)
  case Nil
  then show ?case by simp
next
  case (Cons ev evs)
  show ?case
    using Cons.IH [of "step cat ev s"] step_settings [of cat ev s]
    by (auto split: if_splits)
qed

lemma step_in_world: "step cat ev (in_world env fs s) = in_world env fs (step cat ev s)"
  by (cases ev)
     (auto simp: in_world_def session_defs split: option.splits sum.splits prod.splits)

lemma run_in_world: "run cat evs (in_world env fs s) = in_world env fs (run cat evs s)"
  unfolding run_def
  by (induction evs arbitrary: s) (simp_all add: step_in_world)

lemma notebook_settings:
  "settings (run cat notebook s)
     = (settings s)(''data_transformers'' := ''vegafusion'', ''renderers'' := ''png'')"
proof
  fix k
  have "Enable_vegafusion \<in> set notebook" and "Enable_png \<in> set notebook"
    by (simp_all add: notebook_def)
  then show "settings (run cat notebook s) k
     = ((settings s)(''data_transformers'' := ''vegafusion'', ''renderers'' := ''png'')) k"
    by (simp add: run_settings)
qed

text \<open>
  C8. Running the cells of the notebook changes the settings of the plotting library in
  exactly two places: the active data transformer becomes \<open>vegafusion\<close> and the active
  renderer \<open>png\<close>, and the active entry of every other registry is what it was. Over any
  sequence of steps a setting differs from what it was only if it is one of these two and
  its enabling cell has run. No step reads an environment variable or a file: run in
  another environment and on another file system, the steps do the same and leave that
  environment and that file system as they are.
\<close>

theorem notebook_enables_two_settings:
  "settings (run cat notebook s)
     = (settings s)(''data_transformers'' := ''vegafusion'', ''renderers'' := ''png'')
   \<and> (settings (run cat evs s) k \<noteq> settings s k \<longrightarrow>
        (k = ''data_transformers'' \<and> Enable_vegafusion \<in> set evs
           \<and> settings (run cat evs s) k = ''vegafusion'')
        \<or> (k = ''renderers'' \<and> Enable_png \<in> set evs \<and> settings (run cat evs s) k = ''png''))
   \<and> run cat evs (in_world env fs s) = in_world env fs (run cat evs s)
   \<and> environ (run cat evs s) = environ s
   \<and> files (run cat evs s) = files s"
  using notebook_settings [of cat s] run_settings [of cat evs s k] run_in_world [of cat evs env fs s]
    run_world [of cat evs s]
  by (simp only: simp_thms) (auto split: if_splits)

theorem notebook_enables_two_settings_witness:
  "settings (run sample_catalog notebook fresh_session) ''renderers'' = ''png''
   \<and> settings (run sample_catalog notebook fresh_session) ''data_transformers'' = ''vegafusion''
   \<and> settings (run sample_catalog notebook fresh_session) ''themes'' = ''default''
   \<and> settings fresh_session ''renderers'' = ''default''
   \<and> environ (run sample_catalog notebook fresh_session) = [''HOME'' \<mapsto> ''/home/user'']"
proof -
  have a: "settings fresh_session = (\<lambda>registry. ''default'')"
    and b: "environ fresh_session = [''HOME'' \<mapsto> ''/home/user'']"
    by (simp_all add: fresh_session_def)
  from notebook_enables_two_settings [of sample_catalog fresh_session notebook "''renderers''"]
  have c: "settings (run sample_catalog notebook fresh_session)
             = (settings fresh_session)(''data_transformers'' := ''vegafusion'', ''renderers'' := ''png'')"
    and d: "environ (run sample_catalog notebook fresh_session) = environ fresh_session"
    by blast+
  show ?thesis by (simp add: a b c d)
qed

end
